theory Spec2Isabelle
  imports Complex_Main "HOL-Library.Word"
begin

section \<open>The ground control points panel (gui/GroundControlPointsView.cxx)\<close>

text \<open>
  The panel shows a list of ground control points, three numeric editors for the
  selected point and a toolbar of actions. Its private class holds the user interface,
  a pointer to the helper that owns the points, and the id of the point on display.
  Every method and every connected lambda of the file is a function on that state.
  Calls into collaborators whose code is elsewhere (the helper, the list model, the
  selection model, the message log) are recorded, in order, in a trace.
\<close>

subsection \<open>Identifiers\<close>

text \<open>
  \<^verbatim>\<open>using id_t = kv::ground_control_point_id_t;\<close> names a type of the geodesy
  library, declared outside this file; it is taken as the unsigned 32-bit integer, so
  \<^verbatim>\<open>INVALID_POINT = std::numeric_limits<id_t>::max()\<close> is the word of all ones.
  Nothing below depends on the width.
\<close>

type_synonym id_t = "32 word"

definition INVALID_POINT :: id_t where
  "INVALID_POINT = - 1"

subsection \<open>Vectors, geographic points and ground control points\<close>

text \<open>
  A \<^verbatim>\<open>double\<close> is a real here: the file performs no arithmetic on coordinates, it
  copies them, substitutes zero and hands them to the number formatter.
\<close>

datatype vector_2d = Vector2d real real

datatype vector_3d = Vector3d (vec_x: real) (vec_y: real) (vec_z: real)

text \<open>
  A geographic point of the geodesy library is empty or holds a raw location with the
  code of its coordinate reference system. \<^verbatim>\<open>kv::SRID::lat_lon_WGS84\<close>, declared
  in that library, is EPSG code 4326; nothing below depends on the number.
\<close>

datatype geo_point = GeoPointEmpty | GeoPoint vector_2d int

definition lat_lon_WGS84 :: int where
  "lat_lon_WGS84 = 4326"

fun is_empty :: "geo_point \<Rightarrow> bool" where
  "is_empty GeoPointEmpty = True"
| "is_empty (GeoPoint v c) = False"

fun crs :: "geo_point \<Rightarrow> int" where
  "crs GeoPointEmpty = - 1"
| "crs (GeoPoint v c) = c"

record ground_control_point =
  geo_loc :: geo_point
  elevation :: real
  is_geo_loc_user_provided :: bool

text \<open>
  Modelled from the spec: the point class and its two setters belong to the geodesy
  library and are not in this file. The spec has the commit of an edit "write the
  (easting, northing) pair back as a geodetic location tagged with the standard
  reference frame, write the elevation, mark the point as user-provided":
  \<^verbatim>\<open>set_geo_loc(loc, elev)\<close> stores the location and the elevation,
  \<^verbatim>\<open>set_geo_loc_user_provided(b)\<close> stores the flag.
\<close>

definition set_geo_loc :: "ground_control_point \<Rightarrow> geo_point \<Rightarrow> real \<Rightarrow> ground_control_point" where
  "set_geo_loc gcp loc elev = gcp\<lparr>geo_loc := loc, elevation := elev\<rparr>"

definition set_geo_loc_user_provided :: "ground_control_point \<Rightarrow> bool \<Rightarrow> ground_control_point" where
  "set_geo_loc_user_provided gcp b = gcp\<lparr>is_geo_loc_user_provided := b\<rparr>"

subsection \<open>The helper, the widgets and the private state\<close>

text \<open>
  Modelled from the spec: the helper class is not in this file. The spec has the panel
  "query a point by id" and says that lookups by id "use presence/absence rather than
  exceptions to signal missing data". So \<^verbatim>\<open>helper->groundControlPoint(id)\<close> is a
  partial map: a shared pointer to the point, or null. The helper owns the points, and a
  write through the pointer changes the helper's point.
\<close>

record GroundControlPointsHelper =
  groundControlPoint :: "id_t \<rightharpoonup> ground_control_point"

text \<open>
  A spin box holds a value and is enabled or not. \<^verbatim>\<open>setValue\<close> is only called
  inside \<^verbatim>\<open>qtScopedBlockSignals\<close>, so it stores the value and runs no handler.
  (The rounding and the range of the box are set in the designer file and are not part
  of this model: the box holds the value it is given.)
\<close>

record QDoubleSpinBox =
  spin_value :: real
  spin_enabled :: bool

definition setValue :: "QDoubleSpinBox \<Rightarrow> real \<Rightarrow> QDoubleSpinBox" where
  "setValue box v = box\<lparr>spin_value := v\<rparr>"

definition setEnabled :: "QDoubleSpinBox \<Rightarrow> bool \<Rightarrow> QDoubleSpinBox" where
  "setEnabled box b = box\<lparr>spin_enabled := b\<rparr>"

text \<open>The calls made to collaborators, in the order they are made.\<close>

datatype effect =
    qWarning_conversion_failed int
  | helper_setActivePoint id_t
  | helper_removePoint id_t
  | helper_resetPoint id_t
  | model_modifyPoint id_t
  | model_setPointData
  | selectionModel_select id_t

text \<open>
  The private class with its user interface. An action and the tool button are
  represented by their enabled flag. \<open>pointsList_current\<close> is the id stored in the
  list model at the current index of the list, \<open>None\<close> when that datum is invalid.
  The clipboard is the system clipboard's text.
\<close>

record GroundControlPointsViewPrivate =
  UI_easting :: QDoubleSpinBox
  UI_northing :: QDoubleSpinBox
  UI_elevation :: QDoubleSpinBox
  UI_actionDelete :: bool
  UI_actionRevert :: bool
  UI_actionCopyLocationLatLon :: bool
  UI_actionCopyLocationLatLonElev :: bool
  UI_actionCopyLocationLonLat :: bool
  UI_actionCopyLocationLonLatElev :: bool
  copyLocationButton :: bool
  pointsList_current :: "id_t option"
  helper :: "GroundControlPointsHelper option"
  currentPoint :: id_t
  clipboard :: string
  trace :: "effect list"

text \<open>Dereferencing the null helper is undefined behaviour; the model reports it.\<close>

datatype fault = NullPointerDereference

subsection \<open>enableControls\<close>

definition enableControls ::
  "GroundControlPointsViewPrivate \<Rightarrow> bool \<Rightarrow> bool \<Rightarrow> GroundControlPointsViewPrivate" where
  "enableControls d state haveLocation =
     d\<lparr>UI_easting := setEnabled (UI_easting d) state,
       UI_northing := setEnabled (UI_northing d) state,
       UI_elevation := setEnabled (UI_elevation d) state,
       UI_actionDelete := state,
       UI_actionRevert := state,
       UI_actionCopyLocationLatLon := (state \<and> haveLocation),
       UI_actionCopyLocationLatLonElev := (state \<and> haveLocation),
       UI_actionCopyLocationLonLat := (state \<and> haveLocation),
       UI_actionCopyLocationLonLatElev := (state \<and> haveLocation),
       copyLocationButton := state\<rparr>"

subsection \<open>showPoint\<close>

text \<open>
  \<^verbatim>\<open>gl.location(crs)\<close> belongs to the geodesy library and may throw; it is the
  parameter \<open>location\<close>, returning \<open>Inl\<close> an exception or \<open>Inr\<close> the converted
  vector. The lambda of \<^verbatim>\<open>showPoint\<close> catches every exception, logs a warning and
  falls through to the zero vector, which is also its value for an empty location.
  It returns the vector together with the warnings it logged.
\<close>

definition showPoint_grl ::
  "(geo_point \<Rightarrow> int \<Rightarrow> 'e + vector_3d) \<Rightarrow> geo_point \<Rightarrow> vector_3d \<times> effect list" where
  "showPoint_grl location gl =
     (if \<not> is_empty gl then
        (case location gl lat_lon_WGS84 of
           Inr v \<Rightarrow> (v, [])
         | Inl e \<Rightarrow> (Vector3d 0 0 0, [qWarning_conversion_failed (crs gl)]))
      else (Vector3d 0 0 0, []))"

text \<open>The last three lines of \<^verbatim>\<open>showPoint\<close>, reached when no point is shown.\<close>

definition showPoint_clear :: "GroundControlPointsViewPrivate \<Rightarrow> GroundControlPointsViewPrivate" where
  "showPoint_clear d = enableControls (d\<lparr>currentPoint := INVALID_POINT\<rparr>) False True"

definition showPoint ::
  "(geo_point \<Rightarrow> int \<Rightarrow> 'e + vector_3d) \<Rightarrow> GroundControlPointsViewPrivate \<Rightarrow> id_t
     \<Rightarrow> GroundControlPointsViewPrivate" where
  "showPoint location d pid =
     (case helper d of
        None \<Rightarrow> showPoint_clear d
      | Some h \<Rightarrow>
          if pid \<noteq> INVALID_POINT then
            (case groundControlPoint h pid of
               None \<Rightarrow> showPoint_clear d
             | Some gcp \<Rightarrow>
                 let d1 = d\<lparr>currentPoint := pid\<rparr>;
                     gl = geo_loc gcp;
                     (grl, warnings) = showPoint_grl location gl;
                     d2 = d1\<lparr>trace := trace d1 @ warnings\<rparr>;
                     d3 = d2\<lparr>UI_easting := setValue (UI_easting d2) (vec_x grl)\<rparr>;
                     d4 = d3\<lparr>UI_northing := setValue (UI_northing d3) (vec_y grl)\<rparr>;
                     d5 = d4\<lparr>UI_elevation := setValue (UI_elevation d4) (elevation gcp)\<rparr>
                 in enableControls d5 True (\<not> is_empty gl))
          else showPoint_clear d)"

subsection \<open>setPointPosition\<close>

definition setPointPosition ::
  "GroundControlPointsViewPrivate \<Rightarrow> id_t \<Rightarrow> GroundControlPointsViewPrivate" where
  "setPointPosition d pid =
     (case helper d of
        None \<Rightarrow> d
      | Some h \<Rightarrow>
          if pid \<noteq> INVALID_POINT then
            (case groundControlPoint h pid of
               None \<Rightarrow> d
             | Some gcp \<Rightarrow>
                 let grl = Vector2d (spin_value (UI_easting d)) (spin_value (UI_northing d));
                     gcp1 = set_geo_loc gcp (GeoPoint grl lat_lon_WGS84)
                              (spin_value (UI_elevation d));
                     gcp2 = set_geo_loc_user_provided gcp1 True;
                     h' = h\<lparr>groundControlPoint := (groundControlPoint h)(pid \<mapsto> gcp2)\<rparr>
                 in d\<lparr>helper := Some h', trace := trace d @ [model_modifyPoint pid]\<rparr>)
          else d)"

subsection \<open>selectedPoint\<close>

definition selectedPoint :: "GroundControlPointsViewPrivate \<Rightarrow> id_t" where
  "selectedPoint d = (case pointsList_current d of Some pid \<Rightarrow> pid | None \<Rightarrow> INVALID_POINT)"

subsection \<open>copyLocation\<close>

text \<open>\<^verbatim>\<open>QStringList::join\<close> with a character as separator.\<close>

fun join :: "char \<Rightarrow> string list \<Rightarrow> string" where
  "join sep [] = []"
| "join sep [a] = a"
| "join sep (a # b # rest) = a @ sep # join sep (b # rest)"

text \<open>
  The lambda of \<^verbatim>\<open>copyLocation\<close>; it is only called on a non-empty location.
\<close>

definition copyLocation_grl ::
  "(geo_point \<Rightarrow> int \<Rightarrow> 'e + vector_3d) \<Rightarrow> geo_point \<Rightarrow> vector_3d \<times> effect list" where
  "copyLocation_grl location gl =
     (case location gl lat_lon_WGS84 of
        Inr v \<Rightarrow> (v, [])
      | Inl e \<Rightarrow> (Vector3d 0 0 0, [qWarning_conversion_failed (crs gl)]))"

text \<open>
  \<^verbatim>\<open>QString::number(double, char format, int precision)\<close> belongs to the toolkit and
  is the parameter \<open>number\<close>. The helper pointer is dereferenced without a test.
\<close>

definition copyLocation ::
  "(geo_point \<Rightarrow> int \<Rightarrow> 'e + vector_3d) \<Rightarrow> (real \<Rightarrow> char \<Rightarrow> nat \<Rightarrow> string)
     \<Rightarrow> GroundControlPointsViewPrivate \<Rightarrow> bool \<Rightarrow> bool
     \<Rightarrow> fault + GroundControlPointsViewPrivate" where
  "copyLocation location number d northingFirst includeElevation =
     (case helper d of
        None \<Rightarrow> Inl NullPointerDereference
      | Some h \<Rightarrow>
          (case groundControlPoint h (currentPoint d) of
             None \<Rightarrow> Inr d
           | Some gcp \<Rightarrow>
               let gl = geo_loc gcp in
               if \<not> is_empty gl then
                 let (grl, warnings) = copyLocation_grl location gl;
                     values1 =
                       (if northingFirst
                        then [number (vec_y grl) CHR ''f'' 9, number (vec_x grl) CHR ''f'' 9]
                        else [number (vec_x grl) CHR ''f'' 9, number (vec_y grl) CHR ''f'' 9]);
                     values2 =
                       (if includeElevation
                        then values1 @ [number (elevation gcp) CHR ''f'' 3]
                        else values1)
                 in Inr (d\<lparr>trace := trace d @ warnings,
                           clipboard := join CHR '','' values2\<rparr>)
               else Inr d))"

subsection \<open>The constructor and the connected handlers\<close>

text \<open>
  The constructor sets up the widgets (their state after \<^verbatim>\<open>setupUi\<close> is the
  argument), leaves the helper null and the current point invalid, and ends with
  \<^verbatim>\<open>enableControls(false)\<close>.
\<close>

definition GroundControlPointsView ::
  "GroundControlPointsViewPrivate \<Rightarrow> GroundControlPointsViewPrivate" where
  "GroundControlPointsView ui =
     enableControls (ui\<lparr>helper := None, currentPoint := INVALID_POINT\<rparr>) False True"

text \<open>The list's \<^verbatim>\<open>currentChanged\<close> signal.\<close>

definition currentChanged ::
  "(geo_point \<Rightarrow> int \<Rightarrow> 'e + vector_3d) \<Rightarrow> GroundControlPointsViewPrivate
     \<Rightarrow> GroundControlPointsViewPrivate" where
  "currentChanged location d =
     (let pid = selectedPoint d;
          d1 = showPoint location d pid
      in case helper d1 of
           None \<Rightarrow> d1
         | Some h \<Rightarrow> d1\<lparr>trace := trace d1 @ [helper_setActivePoint pid]\<rparr>)"

definition actionDelete_triggered ::
  "GroundControlPointsViewPrivate \<Rightarrow> GroundControlPointsViewPrivate" where
  "actionDelete_triggered d =
     (if helper d \<noteq> None \<and> currentPoint d \<noteq> INVALID_POINT
      then d\<lparr>trace := trace d @ [helper_removePoint (currentPoint d)]\<rparr>
      else d)"

definition actionRevert_triggered ::
  "GroundControlPointsViewPrivate \<Rightarrow> GroundControlPointsViewPrivate" where
  "actionRevert_triggered d =
     (if helper d \<noteq> None \<and> currentPoint d \<noteq> INVALID_POINT
      then d\<lparr>trace := trace d @ [helper_resetPoint (currentPoint d),
                                 model_modifyPoint (currentPoint d)]\<rparr>
      else d)"

text \<open>
  The three spin boxes share one handler of \<^verbatim>\<open>valueChanged\<close>. A user edit stores the
  new value in its box and then runs the handler.
\<close>

definition spp :: "GroundControlPointsViewPrivate \<Rightarrow> GroundControlPointsViewPrivate" where
  "spp d = setPointPosition d (currentPoint d)"

definition easting_valueChanged ::
  "GroundControlPointsViewPrivate \<Rightarrow> real \<Rightarrow> GroundControlPointsViewPrivate" where
  "easting_valueChanged d v = spp (d\<lparr>UI_easting := setValue (UI_easting d) v\<rparr>)"

definition northing_valueChanged ::
  "GroundControlPointsViewPrivate \<Rightarrow> real \<Rightarrow> GroundControlPointsViewPrivate" where
  "northing_valueChanged d v = spp (d\<lparr>UI_northing := setValue (UI_northing d) v\<rparr>)"

definition elevation_valueChanged ::
  "GroundControlPointsViewPrivate \<Rightarrow> real \<Rightarrow> GroundControlPointsViewPrivate" where
  "elevation_valueChanged d v = spp (d\<lparr>UI_elevation := setValue (UI_elevation d) v\<rparr>)"

text \<open>
  \<^verbatim>\<open>setHelper\<close> stores the pointer, connects the helper's signals and reads the
  helper's points for the list model; that last call dereferences the argument.
\<close>

definition setHelper ::
  "GroundControlPointsViewPrivate \<Rightarrow> GroundControlPointsHelper option
     \<Rightarrow> fault + GroundControlPointsViewPrivate" where
  "setHelper d h =
     (case h of
        None \<Rightarrow> Inl NullPointerDereference
      | Some h' \<Rightarrow> Inr (d\<lparr>helper := Some h', trace := trace d @ [model_setPointData]\<rparr>))"

text \<open>The handlers of the helper's signals, connected in \<^verbatim>\<open>setHelper\<close>.\<close>

definition pointChanged ::
  "(geo_point \<Rightarrow> int \<Rightarrow> 'e + vector_3d) \<Rightarrow> GroundControlPointsViewPrivate \<Rightarrow> id_t
     \<Rightarrow> GroundControlPointsViewPrivate" where
  "pointChanged location d pid =
     (if currentPoint d = pid then showPoint location d pid else d)"

definition pointsRecomputed ::
  "(geo_point \<Rightarrow> int \<Rightarrow> 'e + vector_3d) \<Rightarrow> GroundControlPointsViewPrivate
     \<Rightarrow> GroundControlPointsViewPrivate" where
  "pointsRecomputed location d =
     (if currentPoint d \<noteq> INVALID_POINT then showPoint location d (currentPoint d) else d)"

text \<open>
  The selection request \<^verbatim>\<open>select(model.find(id), flags)\<close> is recorded with the id
  that was looked up.
\<close>

definition activePointChanged ::
  "(geo_point \<Rightarrow> int \<Rightarrow> 'e + vector_3d) \<Rightarrow> GroundControlPointsViewPrivate \<Rightarrow> id_t
     \<Rightarrow> GroundControlPointsViewPrivate" where
  "activePointChanged location d pid =
     (if currentPoint d \<noteq> pid then
        (let d1 = showPoint location d pid
         in d1\<lparr>trace := trace d1 @ [selectionModel_select pid]\<rparr>)
      else d)"

subsection \<open>The list and its rows\<close>

text \<open>
  Modelled from the spec: the list model class is not in this file. setHelper hands it
  the helper's points and connects the helper's point-added, point-removed and
  points-reloaded notifications to it; the spec has the panel "forward add/remove/reset
  notifications so the list stays synchronized". So the list has a row for an id exactly
  when the helper holds a point under that id. \<^verbatim>\<open>model.find(id)\<close> returns the index
  of that row, or an invalid index; \<open>model_find\<close> is the id stored at that index,
  \<open>None\<close> for the invalid index.
\<close>

definition model_find :: "GroundControlPointsViewPrivate \<Rightarrow> id_t \<Rightarrow> id_t option" where
  "model_find d pid =
     (case helper d of
        None \<Rightarrow> None
      | Some h \<Rightarrow> (case groundControlPoint h pid of None \<Rightarrow> None | Some gcp \<Rightarrow> Some pid))"

text \<open>The number of selection requests among the recorded calls.\<close>

fun is_select :: "effect \<Rightarrow> bool" where
  "is_select (selectionModel_select pid) = True"
| "is_select other = False"

definition select_requests :: "effect list \<Rightarrow> nat" where
  "select_requests calls = length (filter is_select calls)"

subsection \<open>The states the panel can be in\<close>

text \<open>
  The panel starts in the state its constructor leaves and then moves by the events it
  is connected to: a helper is installed, the user makes a row of the list current,
  triggers an action or edits a field, the helper sends one of its notifications.
  Between events the owner of the helper may change its points, and anyone may change
  the clipboard. Each event runs the handler connected to it; a run stops at the first
  fault.
\<close>

datatype event =
    SetHelper "GroundControlPointsHelper option"
  | HelperChanged GroundControlPointsHelper
  | ClipboardChanged string
  | RowSelected "id_t option"
  | DeleteTriggered
  | RevertTriggered
  | CopyLocationTriggered bool bool
  | EastingEdited real
  | NorthingEdited real
  | ElevationEdited real
  | PointChanged id_t
  | PointsRecomputed
  | ActivePointChanged id_t

fun step ::
  "(geo_point \<Rightarrow> int \<Rightarrow> 'e + vector_3d) \<Rightarrow> (real \<Rightarrow> char \<Rightarrow> nat \<Rightarrow> string)
     \<Rightarrow> GroundControlPointsViewPrivate \<Rightarrow> event \<Rightarrow> fault + GroundControlPointsViewPrivate" where
  "step location number d (SetHelper h) = setHelper d h"
| "step location number d (HelperChanged h') =
     Inr (case helper d of None \<Rightarrow> d | Some h \<Rightarrow> d\<lparr>helper := Some h'\<rparr>)"
| "step location number d (ClipboardChanged t) = Inr (d\<lparr>clipboard := t\<rparr>)"
| "step location number d (RowSelected c) =
     Inr (currentChanged location (d\<lparr>pointsList_current := c\<rparr>))"
| "step location number d DeleteTriggered = Inr (actionDelete_triggered d)"
| "step location number d RevertTriggered = Inr (actionRevert_triggered d)"
| "step location number d (CopyLocationTriggered northingFirst includeElevation) =
     copyLocation location number d northingFirst includeElevation"
| "step location number d (EastingEdited v) = Inr (easting_valueChanged d v)"
| "step location number d (NorthingEdited v) = Inr (northing_valueChanged d v)"
| "step location number d (ElevationEdited v) = Inr (elevation_valueChanged d v)"
| "step location number d (PointChanged pid) = Inr (pointChanged location d pid)"
| "step location number d PointsRecomputed = Inr (pointsRecomputed location d)"
| "step location number d (ActivePointChanged pid) = Inr (activePointChanged location d pid)"

fun run ::
  "(geo_point \<Rightarrow> int \<Rightarrow> 'e + vector_3d) \<Rightarrow> (real \<Rightarrow> char \<Rightarrow> nat \<Rightarrow> string)
     \<Rightarrow> GroundControlPointsViewPrivate \<Rightarrow> event list
     \<Rightarrow> fault + GroundControlPointsViewPrivate" where
  "run location number d [] = Inr d"
| "run location number d (ev # evs) =
     (case step location number d ev of
        Inl f \<Rightarrow> Inl f
      | Inr d' \<Rightarrow> run location number d' evs)"

text \<open>The tool button that opens the copy menu is enabled exactly when a point is current.\<close>

definition button_follows_current :: "GroundControlPointsViewPrivate \<Rightarrow> bool" where
  "button_follows_current d = (copyLocationButton d = (currentPoint d \<noteq> INVALID_POINT))"

text \<open>At least one of the four copy actions is enabled.\<close>

definition copy_action_enabled :: "GroundControlPointsViewPrivate \<Rightarrow> bool" where
  "copy_action_enabled d =
     (UI_actionCopyLocationLatLon d \<or> UI_actionCopyLocationLatLonElev d \<or>
      UI_actionCopyLocationLonLat d \<or> UI_actionCopyLocationLonLatElev d)"

text \<open>A copy action is enabled only while a helper is set.\<close>

definition copy_needs_helper :: "GroundControlPointsViewPrivate \<Rightarrow> bool" where
  "copy_needs_helper d = (copy_action_enabled d \<longrightarrow> helper d \<noteq> None)"

subsection \<open>A sample panel\<close>

text \<open>
  A helper with three points, used to run the functions above on concrete input: point 1
  lies in the latitude/longitude frame, point 2 has no location, point 3 lies in a
  frame (UTM zone 18N) that the sample conversion does not support. The sample
  conversion returns a location already in the requested frame and throws otherwise;
  the sample formatter prints the integers that occur in the sample.
\<close>

fun example_location :: "geo_point \<Rightarrow> int \<Rightarrow> unit + vector_3d" where
  "example_location GeoPointEmpty target = Inl ()"
| "example_location (GeoPoint (Vector2d a b) c) target =
     (if c = target then Inr (Vector3d a b 0) else Inl ())"

definition example_number :: "real \<Rightarrow> char \<Rightarrow> nat \<Rightarrow> string" where
  "example_number v fmt prec =
     (if v = 0 then ''0'' else if v = 10 then ''10'' else if v < 0 then ''-77'' else ''38'')
       @ ''.'' @ replicate prec CHR ''0''"

definition example_helper :: GroundControlPointsHelper where
  "example_helper = \<lparr>groundControlPoint =
     [1 \<mapsto> \<lparr>geo_loc = GeoPoint (Vector2d (- 77) 38) 4326, elevation = 10,
             is_geo_loc_user_provided = False\<rparr>,
      2 \<mapsto> \<lparr>geo_loc = GeoPointEmpty, elevation = 0, is_geo_loc_user_provided = False\<rparr>,
      3 \<mapsto> \<lparr>geo_loc = GeoPoint (Vector2d 500000 4300000) 32618, elevation = 10,
             is_geo_loc_user_provided = False\<rparr>]\<rparr>"

text \<open>
  The widgets as the designer file sets them up, the panel as constructed from them, the
  panel after the sample helper has been installed, and the panel after the user has
  then selected the row of point 1.
\<close>

definition example_ui :: GroundControlPointsViewPrivate where
  "example_ui =
     \<lparr>UI_easting = \<lparr>spin_value = 0, spin_enabled = True\<rparr>,
      UI_northing = \<lparr>spin_value = 0, spin_enabled = True\<rparr>,
      UI_elevation = \<lparr>spin_value = 0, spin_enabled = True\<rparr>,
      UI_actionDelete = True, UI_actionRevert = True,
      UI_actionCopyLocationLatLon = True, UI_actionCopyLocationLatLonElev = True,
      UI_actionCopyLocationLonLat = True, UI_actionCopyLocationLonLatElev = True,
      copyLocationButton = True, pointsList_current = None,
      helper = None, currentPoint = INVALID_POINT, clipboard = ''old'', trace = []\<rparr>"

definition example_fresh :: GroundControlPointsViewPrivate where
  "example_fresh = GroundControlPointsView example_ui"

definition example_panel :: GroundControlPointsViewPrivate where
  "example_panel =
     example_fresh\<lparr>helper := Some example_helper,
                   trace := trace example_fresh @ [model_setPointData]\<rparr>"

definition example_view :: GroundControlPointsViewPrivate where
  "example_view = currentChanged example_location (example_panel\<lparr>pointsList_current := Some 1\<rparr>)"

section \<open>Properties\<close>

subsection \<open>Basic facts\<close>

text \<open>The sentinel is the largest identifier.\<close>

lemma INVALID_POINT_is_max: "unat INVALID_POINT = 4294967295 \<and> pid \<le> INVALID_POINT"
  by (simp add: INVALID_POINT_def unsigned_minus_1_eq_mask mask_eq_exp_minus_1)

text \<open>What showPoint does to the current point id and to the helper pointer.\<close>

lemma currentPoint_showPoint:
  "currentPoint (showPoint location d pid) =
     (case helper d of
        None \<Rightarrow> INVALID_POINT
      | Some h \<Rightarrow>
          if pid \<noteq> INVALID_POINT \<and> groundControlPoint h pid \<noteq> None then pid
          else INVALID_POINT)"
  by (simp add: showPoint_def showPoint_clear_def enableControls_def Let_def
      split: option.splits prod.splits)

lemma helper_showPoint: "helper (showPoint location d pid) = helper d"
  by (simp add: showPoint_def showPoint_clear_def enableControls_def Let_def
      split: option.splits prod.splits)

lemma showPoint_not_shown:
  assumes "pid = INVALID_POINT \<or> helper d = None \<or>
           (\<exists>h. helper d = Some h \<and> groundControlPoint h pid = None)"
  shows "showPoint location d pid = showPoint_clear d"
  using assms by (auto simp add: showPoint_def split: option.splits)

text \<open>The state left by the clearing branch of showPoint.\<close>

lemma showPoint_clear_fields:
  "currentPoint (showPoint_clear d) = INVALID_POINT"
  "helper (showPoint_clear d) = helper d"
  "\<not> spin_enabled (UI_easting (showPoint_clear d))"
  "\<not> spin_enabled (UI_northing (showPoint_clear d))"
  "\<not> spin_enabled (UI_elevation (showPoint_clear d))"
  "\<not> UI_actionDelete (showPoint_clear d)"
  "\<not> UI_actionRevert (showPoint_clear d)"
  "\<not> UI_actionCopyLocationLatLon (showPoint_clear d)"
  "\<not> UI_actionCopyLocationLatLonElev (showPoint_clear d)"
  "\<not> UI_actionCopyLocationLonLat (showPoint_clear d)"
  "\<not> UI_actionCopyLocationLonLatElev (showPoint_clear d)"
  "\<not> copyLocationButton (showPoint_clear d)"
  by (simp_all add: showPoint_clear_def enableControls_def setEnabled_def)

text \<open>The sample states, evaluated.\<close>

lemma example_helper_points:
  "groundControlPoint example_helper 1 =
     Some \<lparr>geo_loc = GeoPoint (Vector2d (- 77) 38) 4326, elevation = 10,
           is_geo_loc_user_provided = False\<rparr>"
  "groundControlPoint example_helper 2 =
     Some \<lparr>geo_loc = GeoPointEmpty, elevation = 0, is_geo_loc_user_provided = False\<rparr>"
  "groundControlPoint example_helper 3 =
     Some \<lparr>geo_loc = GeoPoint (Vector2d 500000 4300000) 32618, elevation = 10,
           is_geo_loc_user_provided = False\<rparr>"
  "groundControlPoint example_helper 4 = None"
  "groundControlPoint example_helper INVALID_POINT = None"
  by (simp_all add: example_helper_def INVALID_POINT_def)

lemma example_fresh_eq:
  "example_fresh =
     \<lparr>UI_easting = \<lparr>spin_value = 0, spin_enabled = False\<rparr>,
      UI_northing = \<lparr>spin_value = 0, spin_enabled = False\<rparr>,
      UI_elevation = \<lparr>spin_value = 0, spin_enabled = False\<rparr>,
      UI_actionDelete = False, UI_actionRevert = False,
      UI_actionCopyLocationLatLon = False, UI_actionCopyLocationLatLonElev = False,
      UI_actionCopyLocationLonLat = False, UI_actionCopyLocationLonLatElev = False,
      copyLocationButton = False, pointsList_current = None,
      helper = None, currentPoint = INVALID_POINT, clipboard = ''old'', trace = []\<rparr>"
  by (simp add: example_fresh_def GroundControlPointsView_def example_ui_def enableControls_def
      setEnabled_def)

lemma example_panel_eq:
  "example_panel =
     \<lparr>UI_easting = \<lparr>spin_value = 0, spin_enabled = False\<rparr>,
      UI_northing = \<lparr>spin_value = 0, spin_enabled = False\<rparr>,
      UI_elevation = \<lparr>spin_value = 0, spin_enabled = False\<rparr>,
      UI_actionDelete = False, UI_actionRevert = False,
      UI_actionCopyLocationLatLon = False, UI_actionCopyLocationLatLonElev = False,
      UI_actionCopyLocationLonLat = False, UI_actionCopyLocationLonLatElev = False,
      copyLocationButton = False, pointsList_current = None,
      helper = Some example_helper, currentPoint = INVALID_POINT, clipboard = ''old'',
      trace = [model_setPointData]\<rparr>"
  by (simp add: example_panel_def example_fresh_eq)

lemma example_view_eq:
  "example_view =
     \<lparr>UI_easting = \<lparr>spin_value = - 77, spin_enabled = True\<rparr>,
      UI_northing = \<lparr>spin_value = 38, spin_enabled = True\<rparr>,
      UI_elevation = \<lparr>spin_value = 10, spin_enabled = True\<rparr>,
      UI_actionDelete = True, UI_actionRevert = True,
      UI_actionCopyLocationLatLon = True, UI_actionCopyLocationLatLonElev = True,
      UI_actionCopyLocationLonLat = True, UI_actionCopyLocationLonLatElev = True,
      copyLocationButton = True, pointsList_current = Some 1,
      helper = Some example_helper, currentPoint = 1, clipboard = ''old'',
      trace = [model_setPointData, helper_setActivePoint 1]\<rparr>"
  by (simp add: example_view_def example_panel_eq currentChanged_def selectedPoint_def
      showPoint_def showPoint_grl_def example_helper_points INVALID_POINT_def
      lat_lon_WGS84_def enableControls_def setEnabled_def setValue_def)

lemma example_ids_valid:
  "(1::id_t) \<noteq> INVALID_POINT" "(2::id_t) \<noteq> INVALID_POINT"
  "(3::id_t) \<noteq> INVALID_POINT" "(4::id_t) \<noteq> INVALID_POINT"
  by (simp_all add: INVALID_POINT_def)

lemma example_runs:
  "run example_location number (GroundControlPointsView example_ui) [] = Inr example_fresh"
  "run example_location number (GroundControlPointsView example_ui)
     [SetHelper (Some example_helper)] = Inr example_panel"
  "run example_location number (GroundControlPointsView example_ui)
     [SetHelper (Some example_helper), RowSelected (Some 1)] = Inr example_view"
  by (simp_all add: example_fresh_def [symmetric] setHelper_def example_panel_def
      example_view_def)

subsection \<open>Copying the location\<close>

text \<open>
  C1. When the current point is held by the helper, its location is not empty and
  converts to the latitude/longitude frame as (lon, lat, alt), copyLocation leaves
  everything but the clipboard as it was and sets the clipboard to latitude and
  longitude (northingFirst) or longitude and latitude (otherwise), each formatted by the
  toolkit's number formatter with format 'f' and precision 9, followed when
  includeElevation is set by the point's elevation with format 'f' and precision 3;
  the pieces are separated by a single comma and nothing else.
\<close>

theorem copyLocation_clipboard_text:
  assumes "helper d = Some h"
    and "groundControlPoint h (currentPoint d) = Some gcp"
    and "\<not> is_empty (geo_loc gcp)"
    and "location (geo_loc gcp) lat_lon_WGS84 = Inr (Vector3d lon lat alt)"
  shows "copyLocation location number d True False =
           Inr (d\<lparr>clipboard := number lat CHR ''f'' 9 @ '','' @ number lon CHR ''f'' 9\<rparr>) \<and>
         copyLocation location number d True True =
           Inr (d\<lparr>clipboard := number lat CHR ''f'' 9 @ '','' @ number lon CHR ''f'' 9 @ '','' @
                                 number (elevation gcp) CHR ''f'' 3\<rparr>) \<and>
         copyLocation location number d False False =
           Inr (d\<lparr>clipboard := number lon CHR ''f'' 9 @ '','' @ number lat CHR ''f'' 9\<rparr>) \<and>
         copyLocation location number d False True =
           Inr (d\<lparr>clipboard := number lon CHR ''f'' 9 @ '','' @ number lat CHR ''f'' 9 @ '','' @
                                 number (elevation gcp) CHR ''f'' 3\<rparr>)"
  using assms by (simp add: copyLocation_def copyLocation_grl_def)

theorem copyLocation_clipboard_text_witness:
  "helper example_view = Some example_helper \<and>
   groundControlPoint example_helper (currentPoint example_view) =
     Some \<lparr>geo_loc = GeoPoint (Vector2d (- 77) 38) 4326, elevation = 10,
           is_geo_loc_user_provided = False\<rparr> \<and>
   \<not> is_empty (GeoPoint (Vector2d (- 77) 38) 4326) \<and>
   example_location (GeoPoint (Vector2d (- 77) 38) 4326) lat_lon_WGS84 =
     Inr (Vector3d (- 77) 38 0) \<and>
   copyLocation example_location example_number example_view True False =
     Inr (example_view\<lparr>clipboard := ''38.000000000,-77.000000000''\<rparr>) \<and>
   copyLocation example_location example_number example_view True True =
     Inr (example_view\<lparr>clipboard := ''38.000000000,-77.000000000,10.000''\<rparr>) \<and>
   copyLocation example_location example_number example_view False False =
     Inr (example_view\<lparr>clipboard := ''-77.000000000,38.000000000''\<rparr>) \<and>
   copyLocation example_location example_number example_view False True =
     Inr (example_view\<lparr>clipboard := ''-77.000000000,38.000000000,10.000''\<rparr>)"
proof -
  have h: "helper example_view = Some example_helper"
    by (simp add: example_view_eq)
  have g: "groundControlPoint example_helper (currentPoint example_view) =
     Some \<lparr>geo_loc = GeoPoint (Vector2d (- 77) 38) 4326, elevation = 10,
           is_geo_loc_user_provided = False\<rparr>"
    by (simp add: example_view_eq example_helper_points)
  have e: "\<not> is_empty (geo_loc \<lparr>geo_loc = GeoPoint (Vector2d (- 77) 38) 4326, elevation = 10,
           is_geo_loc_user_provided = False\<rparr>)"
    by simp
  have l: "example_location (geo_loc \<lparr>geo_loc = GeoPoint (Vector2d (- 77) 38) 4326,
           elevation = 10, is_geo_loc_user_provided = False\<rparr>) lat_lon_WGS84 =
     Inr (Vector3d (- 77) 38 0)"
    by (simp add: lat_lon_WGS84_def)
  from copyLocation_clipboard_text
         [where location = example_location and number = example_number, OF h g e l]
    h g e l
  show ?thesis by (simp add: example_number_def numeral_eq_Suc)
qed

text \<open>
  C7. When the helper does not hold the current point, or holds it with an empty
  location, copyLocation returns the state it was given, clipboard included, whatever
  its two arguments are.
\<close>

theorem copyLocation_noop_without_location:
  assumes "helper d = Some h"
    and "groundControlPoint h (currentPoint d) = None \<or>
         (\<exists>gcp. groundControlPoint h (currentPoint d) = Some gcp \<and> is_empty (geo_loc gcp))"
  shows "copyLocation location number d northingFirst includeElevation = Inr d"
  using assms by (auto simp add: copyLocation_def)

theorem copyLocation_noop_without_location_witness:
  "helper example_panel = Some example_helper \<and>
   groundControlPoint example_helper (currentPoint example_panel) = None \<and>
   copyLocation example_location example_number example_panel True False = Inr example_panel \<and>
   helper (showPoint example_location example_panel 2) = Some example_helper \<and>
   (\<exists>gcp. groundControlPoint example_helper
            (currentPoint (showPoint example_location example_panel 2)) = Some gcp \<and>
          is_empty (geo_loc gcp)) \<and>
   copyLocation example_location example_number (showPoint example_location example_panel 2)
     False True = Inr (showPoint example_location example_panel 2)"
proof -
  have h: "helper example_panel = Some example_helper"
    by (simp add: example_panel_eq)
  have n: "groundControlPoint example_helper (currentPoint example_panel) = None"
    by (simp add: example_panel_eq example_helper_points)
  have h2: "helper (showPoint example_location example_panel 2) = Some example_helper"
    by (simp add: helper_showPoint h)
  have c2: "currentPoint (showPoint example_location example_panel 2) = 2"
    by (simp add: currentPoint_showPoint h example_helper_points example_ids_valid)
  have e: "\<exists>gcp. groundControlPoint example_helper
            (currentPoint (showPoint example_location example_panel 2)) = Some gcp \<and>
          is_empty (geo_loc gcp)"
    by (simp add: c2 example_helper_points)
  from copyLocation_noop_without_location
         [where location = example_location and number = example_number
            and northingFirst = True and includeElevation = False, OF h]
    copyLocation_noop_without_location
         [where location = example_location and number = example_number
            and northingFirst = False and includeElevation = True, OF h2]
    h n h2 e
  show ?thesis by blast
qed

text \<open>
  C8. copyLocation dereferences the helper pointer without testing it: it faults
  exactly when no helper is set. With no helper set, the handlers of delete and revert
  and the commit of an edit return the state unchanged, and showPoint takes its
  clearing branch; none of them touches the pointer.
\<close>

theorem copyLocation_null_helper:
  "(copyLocation location number d northingFirst includeElevation = Inl NullPointerDereference)
     = (helper d = None) \<and>
   (helper d = None \<longrightarrow>
      actionDelete_triggered d = d \<and> actionRevert_triggered d = d \<and>
      setPointPosition d pid = d \<and> spp d = d \<and>
      showPoint location d pid = showPoint_clear d)"
  by (auto simp add: copyLocation_def actionDelete_triggered_def actionRevert_triggered_def
      setPointPosition_def spp_def showPoint_def Let_def split: option.splits prod.splits)

theorem copyLocation_null_helper_witness:
  "helper example_fresh = None \<and>
   copyLocation example_location example_number example_fresh True False =
     Inl NullPointerDereference \<and>
   actionDelete_triggered example_fresh = example_fresh \<and>
   actionRevert_triggered example_fresh = example_fresh \<and>
   setPointPosition example_fresh 1 = example_fresh \<and>
   spp example_fresh = example_fresh \<and>
   showPoint example_location example_fresh 1 = showPoint_clear example_fresh"
proof -
  have h: "helper example_fresh = None"
    by (simp add: example_fresh_eq)
  from copyLocation_null_helper
         [where location = example_location and number = example_number
            and d = example_fresh and northingFirst = True and includeElevation = False
            and pid = 1] h
  show ?thesis by simp
qed

subsection \<open>Showing a point\<close>

text \<open>
  C5. When the helper holds the point (under a valid id) and its location is empty,
  showPoint leaves the four copy actions disabled and the delete action, the revert
  action and the three spin boxes enabled.
\<close>

theorem showPoint_empty_location_controls:
  assumes "helper d = Some h" and "pid \<noteq> INVALID_POINT"
    and "groundControlPoint h pid = Some gcp" and "is_empty (geo_loc gcp)"
  shows "\<not> UI_actionCopyLocationLatLon (showPoint location d pid) \<and>
         \<not> UI_actionCopyLocationLatLonElev (showPoint location d pid) \<and>
         \<not> UI_actionCopyLocationLonLat (showPoint location d pid) \<and>
         \<not> UI_actionCopyLocationLonLatElev (showPoint location d pid) \<and>
         UI_actionDelete (showPoint location d pid) \<and>
         UI_actionRevert (showPoint location d pid) \<and>
         spin_enabled (UI_easting (showPoint location d pid)) \<and>
         spin_enabled (UI_northing (showPoint location d pid)) \<and>
         spin_enabled (UI_elevation (showPoint location d pid))"
  using assms
  by (simp add: showPoint_def showPoint_grl_def enableControls_def setEnabled_def)

theorem showPoint_empty_location_controls_witness:
  "helper example_view = Some example_helper \<and> 2 \<noteq> INVALID_POINT \<and>
   groundControlPoint example_helper 2 =
     Some \<lparr>geo_loc = GeoPointEmpty, elevation = 0, is_geo_loc_user_provided = False\<rparr> \<and>
   is_empty GeoPointEmpty \<and>
   \<not> UI_actionCopyLocationLatLon (showPoint example_location example_view 2) \<and>
   \<not> UI_actionCopyLocationLatLonElev (showPoint example_location example_view 2) \<and>
   \<not> UI_actionCopyLocationLonLat (showPoint example_location example_view 2) \<and>
   \<not> UI_actionCopyLocationLonLatElev (showPoint example_location example_view 2) \<and>
   UI_actionDelete (showPoint example_location example_view 2) \<and>
   UI_actionRevert (showPoint example_location example_view 2) \<and>
   spin_enabled (UI_easting (showPoint example_location example_view 2)) \<and>
   spin_enabled (UI_northing (showPoint example_location example_view 2)) \<and>
   spin_enabled (UI_elevation (showPoint example_location example_view 2))"
proof -
  have h: "helper example_view = Some example_helper"
    by (simp add: example_view_eq)
  have i: "(2::id_t) \<noteq> INVALID_POINT"
    by (rule example_ids_valid)
  have g: "groundControlPoint example_helper 2 =
     Some \<lparr>geo_loc = GeoPointEmpty, elevation = 0, is_geo_loc_user_provided = False\<rparr>"
    by (rule example_helper_points)
  have e: "is_empty (geo_loc \<lparr>geo_loc = GeoPointEmpty, elevation = 0,
                               is_geo_loc_user_provided = False\<rparr>)"
    by simp
  from showPoint_empty_location_controls [where location = example_location, OF h i g e] h i g
  show ?thesis by simp
qed

text \<open>
  C2. When the helper holds the point, its location is not empty and the conversion to
  the latitude/longitude frame throws, showPoint returns normally: afterwards the
  easting box and the northing box hold 0 and the elevation box holds the point's stored
  elevation, one warning has been logged, the point is current and every control is
  enabled; nothing else has changed.
  copyLocation on that point returns normally as well: it logs the warning and puts
  on the clipboard the text made from 0 and 0 (and the stored elevation when asked).
\<close>

theorem conversion_failure_absorbed:
  assumes "helper d = Some h" and "pid \<noteq> INVALID_POINT"
    and "groundControlPoint h pid = Some gcp"
    and "\<not> is_empty (geo_loc gcp)"
    and "location (geo_loc gcp) lat_lon_WGS84 = Inl e"
  shows "spin_value (UI_easting (showPoint location d pid)) = 0 \<and>
         spin_value (UI_northing (showPoint location d pid)) = 0 \<and>
         spin_value (UI_elevation (showPoint location d pid)) = elevation gcp \<and>
         showPoint location d pid =
           d\<lparr>currentPoint := pid,
             trace := trace d @ [qWarning_conversion_failed (crs (geo_loc gcp))],
             UI_easting := (UI_easting d)\<lparr>spin_value := 0, spin_enabled := True\<rparr>,
             UI_northing := (UI_northing d)\<lparr>spin_value := 0, spin_enabled := True\<rparr>,
             UI_elevation :=
               (UI_elevation d)\<lparr>spin_value := elevation gcp, spin_enabled := True\<rparr>,
             UI_actionDelete := True, UI_actionRevert := True,
             UI_actionCopyLocationLatLon := True, UI_actionCopyLocationLatLonElev := True,
             UI_actionCopyLocationLonLat := True, UI_actionCopyLocationLonLatElev := True,
             copyLocationButton := True\<rparr> \<and>
         copyLocation location number (d\<lparr>currentPoint := pid\<rparr>) northingFirst includeElevation =
           Inr (d\<lparr>currentPoint := pid,
                  trace := trace d @ [qWarning_conversion_failed (crs (geo_loc gcp))],
                  clipboard :=
                    number 0 CHR ''f'' 9 @ '','' @ number 0 CHR ''f'' 9 @
                      (if includeElevation then '','' @ number (elevation gcp) CHR ''f'' 3
                       else [])\<rparr>)"
  using assms
  by (simp add: showPoint_def showPoint_grl_def copyLocation_def copyLocation_grl_def
      enableControls_def setValue_def setEnabled_def)

theorem conversion_failure_absorbed_witness:
  "helper example_view = Some example_helper \<and> 3 \<noteq> INVALID_POINT \<and>
   groundControlPoint example_helper 3 =
     Some \<lparr>geo_loc = GeoPoint (Vector2d 500000 4300000) 32618, elevation = 10,
           is_geo_loc_user_provided = False\<rparr> \<and>
   \<not> is_empty (GeoPoint (Vector2d 500000 4300000) 32618) \<and>
   example_location (GeoPoint (Vector2d 500000 4300000) 32618) lat_lon_WGS84 = Inl () \<and>
   spin_value (UI_easting (showPoint example_location example_view 3)) = 0 \<and>
   spin_value (UI_northing (showPoint example_location example_view 3)) = 0 \<and>
   spin_value (UI_elevation (showPoint example_location example_view 3)) = 10 \<and>
   trace (showPoint example_location example_view 3) =
     trace example_view @ [qWarning_conversion_failed 32618] \<and>
   copyLocation example_location example_number (example_view\<lparr>currentPoint := 3\<rparr>) True True =
     Inr (example_view\<lparr>currentPoint := 3,
            trace := trace example_view @ [qWarning_conversion_failed 32618],
            clipboard := ''0.000000000,0.000000000,10.000''\<rparr>)"
proof -
  have h: "helper example_view = Some example_helper"
    by (simp add: example_view_eq)
  have i: "(3::id_t) \<noteq> INVALID_POINT"
    by (rule example_ids_valid)
  have g: "groundControlPoint example_helper 3 =
     Some \<lparr>geo_loc = GeoPoint (Vector2d 500000 4300000) 32618, elevation = 10,
           is_geo_loc_user_provided = False\<rparr>"
    by (rule example_helper_points)
  have e: "\<not> is_empty (geo_loc \<lparr>geo_loc = GeoPoint (Vector2d 500000 4300000) 32618,
           elevation = 10, is_geo_loc_user_provided = False\<rparr>)"
    by simp
  have l: "example_location (geo_loc \<lparr>geo_loc = GeoPoint (Vector2d 500000 4300000) 32618,
           elevation = 10, is_geo_loc_user_provided = False\<rparr>) lat_lon_WGS84 = Inl ()"
    by (simp add: lat_lon_WGS84_def)
  from conversion_failure_absorbed
         [where location = example_location and number = example_number
            and northingFirst = True and includeElevation = True, OF h i g e l]
    h i g e l
  show ?thesis
    by (simp add: example_number_def numeral_eq_Suc enableControls_def setValue_def
        setEnabled_def)
qed

text \<open>
  When the id is the sentinel, or no helper is set, or the helper holds no point under
  the id, showPoint makes the sentinel the current point id and disables the three
  spin boxes, the delete and revert actions, the four copy actions and the copy
  button. In the state it leaves, the commit of an edit, the delete handler and the
  revert handler return the state unchanged.
\<close>

lemma showPoint_clears_without_point:
  assumes "pid = INVALID_POINT \<or> helper d = None \<or>
           (\<exists>h. helper d = Some h \<and> groundControlPoint h pid = None)"
  shows "let d' = showPoint location d pid in
           currentPoint d' = INVALID_POINT \<and>
           \<not> spin_enabled (UI_easting d') \<and> \<not> spin_enabled (UI_northing d') \<and>
           \<not> spin_enabled (UI_elevation d') \<and>
           \<not> UI_actionDelete d' \<and> \<not> UI_actionRevert d' \<and>
           \<not> UI_actionCopyLocationLatLon d' \<and> \<not> UI_actionCopyLocationLatLonElev d' \<and>
           \<not> UI_actionCopyLocationLonLat d' \<and> \<not> UI_actionCopyLocationLonLatElev d' \<and>
           \<not> copyLocationButton d' \<and>
           spp d' = d' \<and> actionDelete_triggered d' = d' \<and> actionRevert_triggered d' = d'"
proof -
  have s: "showPoint location d pid = showPoint_clear d"
    using assms by (rule showPoint_not_shown)
  have c: "currentPoint (showPoint_clear d) = INVALID_POINT"
    by (rule showPoint_clear_fields)
  have e: "spp (showPoint_clear d) = showPoint_clear d"
    by (simp add: spp_def setPointPosition_def c split: option.splits)
  have x: "actionDelete_triggered (showPoint_clear d) = showPoint_clear d"
    by (simp add: actionDelete_triggered_def c)
  have r: "actionRevert_triggered (showPoint_clear d) = showPoint_clear d"
    by (simp add: actionRevert_triggered_def c)
  show ?thesis
    unfolding Let_def s using c e x r by (simp add: showPoint_clear_fields)
qed


subsection \<open>Committing an edit\<close>

text \<open>
  C4. When the helper holds the current point, setPointPosition replaces the point's
  location by the pair (easting box, northing box) tagged with the latitude/longitude
  frame, its elevation by the value of the elevation box, sets its user-provided flag,
  and tells the list model that this point was modified; nothing else changes. A
  change of any of the three boxes runs exactly this on the boxes' new values.
\<close>

theorem setPointPosition_writes_location:
  assumes "helper d = Some h" and "currentPoint d = pid" and "pid \<noteq> INVALID_POINT"
    and "groundControlPoint h pid = Some gcp"
  shows "setPointPosition d pid =
           d\<lparr>helper := Some (h\<lparr>groundControlPoint := (groundControlPoint h)(pid \<mapsto>
                 gcp\<lparr>geo_loc := GeoPoint (Vector2d (spin_value (UI_easting d))
                                                   (spin_value (UI_northing d))) lat_lon_WGS84,
                     elevation := spin_value (UI_elevation d),
                     is_geo_loc_user_provided := True\<rparr>)\<rparr>),
             trace := trace d @ [model_modifyPoint pid]\<rparr> \<and>
         easting_valueChanged d v =
           setPointPosition (d\<lparr>UI_easting := setValue (UI_easting d) v\<rparr>) pid \<and>
         northing_valueChanged d v =
           setPointPosition (d\<lparr>UI_northing := setValue (UI_northing d) v\<rparr>) pid \<and>
         elevation_valueChanged d v =
           setPointPosition (d\<lparr>UI_elevation := setValue (UI_elevation d) v\<rparr>) pid"
  using assms
  by (simp add: setPointPosition_def set_geo_loc_def set_geo_loc_user_provided_def
      easting_valueChanged_def northing_valueChanged_def elevation_valueChanged_def spp_def)

theorem setPointPosition_writes_location_witness:
  "helper example_view = Some example_helper \<and> currentPoint example_view = 1 \<and>
   1 \<noteq> INVALID_POINT \<and>
   groundControlPoint example_helper 1 =
     Some \<lparr>geo_loc = GeoPoint (Vector2d (- 77) 38) 4326, elevation = 10,
           is_geo_loc_user_provided = False\<rparr> \<and>
   northing_valueChanged example_view 39 =
     example_view
       \<lparr>UI_northing := \<lparr>spin_value = 39, spin_enabled = True\<rparr>,
        helper := Some (example_helper\<lparr>groundControlPoint :=
          (groundControlPoint example_helper)(1 \<mapsto>
             \<lparr>geo_loc = GeoPoint (Vector2d (- 77) 39) 4326, elevation = 10,
              is_geo_loc_user_provided = True\<rparr>)\<rparr>),
        trace := trace example_view @ [model_modifyPoint 1]\<rparr>"
proof -
  have h: "helper example_view = Some example_helper"
    by (simp add: example_view_eq)
  have c: "currentPoint example_view = 1"
    by (simp add: example_view_eq)
  have i: "(1::id_t) \<noteq> INVALID_POINT"
    by (rule example_ids_valid)
  have g: "groundControlPoint example_helper 1 =
     Some \<lparr>geo_loc = GeoPoint (Vector2d (- 77) 38) 4326, elevation = 10,
           is_geo_loc_user_provided = False\<rparr>"
    by (rule example_helper_points)
  have h': "helper (example_view\<lparr>UI_northing := setValue (UI_northing example_view) 39\<rparr>) =
      Some example_helper"
    by (simp add: h)
  have c': "currentPoint (example_view\<lparr>UI_northing := setValue (UI_northing example_view) 39\<rparr>)
      = 1"
    by (simp add: c)
  from setPointPosition_writes_location [where v = 39, OF h c i g]
    setPointPosition_writes_location [where v = 39, OF h' c' i g] h c i g
  show ?thesis
    by (simp add: example_view_eq setValue_def lat_lon_WGS84_def)
qed

subsection \<open>Notifications\<close>

text \<open>
  C10. A point-changed notification for an id other than the current one changes
  nothing at all (so the three fields, the current point id and the enablement of the
  controls stay as they were); for the current id the handler is exactly a refresh of
  the display by showPoint.
\<close>

theorem pointChanged_other_id_unchanged:
  "(currentPoint d \<noteq> pid \<longrightarrow> pointChanged location d pid = d) \<and>
   (currentPoint d = pid \<longrightarrow> pointChanged location d pid = showPoint location d pid)"
  by (simp add: pointChanged_def)

theorem pointChanged_other_id_unchanged_witness:
  "currentPoint example_view \<noteq> 2 \<and>
   pointChanged example_location example_view 2 = example_view \<and>
   currentPoint example_view = 1 \<and>
   pointChanged example_location example_view 1 = showPoint example_location example_view 1"
  using pointChanged_other_id_unchanged [of example_view 2 example_location]
        pointChanged_other_id_unchanged [of example_view 1 example_location]
  by (simp add: example_view_eq)

text \<open>What the two list-related handlers do to the current point id and the helper.\<close>

lemma helper_activePointChanged: "helper (activePointChanged location d pid) = helper d"
  by (simp add: activePointChanged_def Let_def helper_showPoint)

lemma currentPoint_currentChanged:
  "currentPoint (currentChanged location d) =
     currentPoint (showPoint location d (selectedPoint d))"
  by (simp add: currentChanged_def Let_def split: option.splits)

text \<open>Neither showPoint nor the handler of the list's current row issues a selection request.\<close>

lemma select_requests_showPoint:
  "select_requests (trace (showPoint location d pid)) = select_requests (trace d)"
  by (simp add: select_requests_def showPoint_def showPoint_clear_def showPoint_grl_def
      enableControls_def Let_def split: option.splits sum.splits)

lemma select_requests_currentChanged:
  "select_requests (trace (currentChanged location d)) = select_requests (trace d)"
  using select_requests_showPoint [of location d "selectedPoint d"]
  by (simp add: select_requests_def currentChanged_def Let_def split: option.splits)

text \<open>
  C6. An active-point-changed notification for the current point id changes nothing.
  For any other id the handler runs showPoint on it once and then issues one selection
  request for it, and does nothing else; when the helper holds the point and its
  location converts, the three fields then show the converted coordinates and the
  stored elevation, and the point is current. When the id is the sentinel or the
  helper holds a point under it, the current point id is then the notified id, so the
  same notification arriving again is skipped. The selection request makes the row of
  the notified id current (no row, if the list has none for it); the handler of that
  change shows the row's point and calls setActivePoint with the row's id, and the
  notification that this feeds back carries an id that matches the current point id
  and is skipped. Over the whole chain one selection request has been issued.
\<close>

theorem activePointChanged_guard:
  "(currentPoint d = pid \<longrightarrow> activePointChanged location d pid = d) \<and>
   (currentPoint d \<noteq> pid \<longrightarrow>
      activePointChanged location d pid =
        (showPoint location d pid)
          \<lparr>trace := trace (showPoint location d pid) @ [selectionModel_select pid]\<rparr> \<and>
      select_requests (trace (activePointChanged location d pid)) =
        select_requests (trace d) + 1) \<and>
   (currentPoint d \<noteq> pid \<and> helper d = Some h \<and> pid \<noteq> INVALID_POINT \<and>
    groundControlPoint h pid = Some gcp \<and> \<not> is_empty (geo_loc gcp) \<and>
    location (geo_loc gcp) lat_lon_WGS84 = Inr (Vector3d x y z) \<longrightarrow>
      spin_value (UI_easting (activePointChanged location d pid)) = x \<and>
      spin_value (UI_northing (activePointChanged location d pid)) = y \<and>
      spin_value (UI_elevation (activePointChanged location d pid)) = elevation gcp) \<and>
   (currentPoint d \<noteq> pid \<and>
    (pid = INVALID_POINT \<or> (\<exists>h gcp. helper d = Some h \<and> groundControlPoint h pid = Some gcp)) \<longrightarrow>
      currentPoint (activePointChanged location d pid) = pid \<and>
      activePointChanged location (activePointChanged location d pid) pid =
        activePointChanged location d pid) \<and>
   (currentPoint d \<noteq> pid \<longrightarrow>
      (let d1 = (activePointChanged location d pid)
                  \<lparr>pointsList_current := model_find (activePointChanged location d pid) pid\<rparr>;
           d2 = currentChanged location d1
       in activePointChanged location d2 (selectedPoint d1) = d2 \<and>
          select_requests (trace d2) = select_requests (trace d) + 1))"
proof (intro conjI impI)
  show "activePointChanged location d pid = d" if "currentPoint d = pid"
    using that by (simp add: activePointChanged_def)
next
  assume n: "currentPoint d \<noteq> pid"
  then show eq: "activePointChanged location d pid =
        (showPoint location d pid)
          \<lparr>trace := trace (showPoint location d pid) @ [selectionModel_select pid]\<rparr>"
    by (simp add: activePointChanged_def Let_def)
  have "select_requests (trace (showPoint location d pid) @ [selectionModel_select pid]) =
      select_requests (trace (showPoint location d pid)) + 1"
    by (simp add: select_requests_def)
  then show "select_requests (trace (activePointChanged location d pid)) =
        select_requests (trace d) + 1"
    by (simp add: eq select_requests_showPoint)
next
  assume a: "currentPoint d \<noteq> pid \<and> helper d = Some h \<and> pid \<noteq> INVALID_POINT \<and>
    groundControlPoint h pid = Some gcp \<and> \<not> is_empty (geo_loc gcp) \<and>
    location (geo_loc gcp) lat_lon_WGS84 = Inr (Vector3d x y z)"
  then have s: "showPoint location d pid =
      d\<lparr>currentPoint := pid,
        UI_easting := (UI_easting d)\<lparr>spin_value := x, spin_enabled := True\<rparr>,
        UI_northing := (UI_northing d)\<lparr>spin_value := y, spin_enabled := True\<rparr>,
        UI_elevation := (UI_elevation d)\<lparr>spin_value := elevation gcp, spin_enabled := True\<rparr>,
        UI_actionDelete := True, UI_actionRevert := True,
        UI_actionCopyLocationLatLon := True, UI_actionCopyLocationLatLonElev := True,
        UI_actionCopyLocationLonLat := True, UI_actionCopyLocationLonLatElev := True,
        copyLocationButton := True\<rparr>"
    by (simp add: showPoint_def showPoint_grl_def enableControls_def setValue_def
        setEnabled_def)
  from a have eq: "activePointChanged location d pid =
        (showPoint location d pid)
          \<lparr>trace := trace (showPoint location d pid) @ [selectionModel_select pid]\<rparr>"
    by (simp add: activePointChanged_def Let_def)
  show "spin_value (UI_easting (activePointChanged location d pid)) = x"
    by (simp add: eq) (simp add: s)
  show "spin_value (UI_northing (activePointChanged location d pid)) = y"
    by (simp add: eq) (simp add: s)
  show "spin_value (UI_elevation (activePointChanged location d pid)) = elevation gcp"
    by (simp add: eq) (simp add: s)
next
  assume a: "currentPoint d \<noteq> pid \<and>
    (pid = INVALID_POINT \<or> (\<exists>h gcp. helper d = Some h \<and> groundControlPoint h pid = Some gcp))"
  then have "currentPoint (showPoint location d pid) = pid"
    by (auto simp add: currentPoint_showPoint split: option.splits)
  with a show c1: "currentPoint (activePointChanged location d pid) = pid"
    by (simp add: activePointChanged_def Let_def)
  then show "activePointChanged location (activePointChanged location d pid) pid =
        activePointChanged location d pid"
    by (simp add: activePointChanged_def [of location "activePointChanged location d pid"])
next
  assume n: "currentPoint d \<noteq> pid"
  define d0 where "d0 = activePointChanged location d pid"
  define d1 where "d1 = d0\<lparr>pointsList_current := model_find d0 pid\<rparr>"
  define sel where "sel = selectedPoint d1"
  have h0: "helper d0 = helper d"
    by (simp add: d0_def helper_activePointChanged)
  have h1: "helper d1 = helper d"
    by (simp add: d1_def h0)
  have sel: "sel = INVALID_POINT \<or>
      (\<exists>h gcp. helper d = Some h \<and> groundControlPoint h sel = Some gcp)"
    by (auto simp add: sel_def d1_def selectedPoint_def model_find_def h0
        split: option.splits)
  then have "currentPoint (showPoint location d1 sel) = sel"
    by (auto simp add: currentPoint_showPoint h1 split: option.splits)
  then have "currentPoint (currentChanged location d1) = sel"
    by (simp add: currentPoint_currentChanged sel_def)
  then have skipped: "activePointChanged location (currentChanged location d1) sel =
      currentChanged location d1"
    by (simp add: activePointChanged_def [of location "currentChanged location d1"])
  have "select_requests (trace d1) = select_requests (trace d0)"
    by (simp add: d1_def)
  moreover have "select_requests (trace d0) = select_requests (trace d) + 1"
  proof -
    have "d0 = (showPoint location d pid)
          \<lparr>trace := trace (showPoint location d pid) @ [selectionModel_select pid]\<rparr>"
      using n by (simp add: d0_def activePointChanged_def Let_def)
    then have "select_requests (trace d0) =
        select_requests (trace (showPoint location d pid)) + 1"
      by (simp add: select_requests_def)
    then show ?thesis
      by (simp add: select_requests_showPoint)
  qed
  ultimately have once: "select_requests (trace (currentChanged location d1)) =
      select_requests (trace d) + 1"
    by (simp add: select_requests_currentChanged)
  show "let d1 = (activePointChanged location d pid)
                  \<lparr>pointsList_current := model_find (activePointChanged location d pid) pid\<rparr>;
           d2 = currentChanged location d1
       in activePointChanged location d2 (selectedPoint d1) = d2 \<and>
          select_requests (trace d2) = select_requests (trace d) + 1"
    unfolding Let_def using skipped once by (simp add: d1_def d0_def sel_def)
qed

theorem activePointChanged_guard_witness:
  "currentPoint example_view = 1 \<and>
   activePointChanged example_location example_view 1 = example_view \<and>
   currentPoint example_panel \<noteq> 1 \<and> helper example_panel = Some example_helper \<and>
   1 \<noteq> INVALID_POINT \<and>
   groundControlPoint example_helper 1 =
     Some \<lparr>geo_loc = GeoPoint (Vector2d (- 77) 38) 4326, elevation = 10,
           is_geo_loc_user_provided = False\<rparr> \<and>
   \<not> is_empty (GeoPoint (Vector2d (- 77) 38) 4326) \<and>
   example_location (GeoPoint (Vector2d (- 77) 38) 4326) lat_lon_WGS84 =
     Inr (Vector3d (- 77) 38 0) \<and>
   activePointChanged example_location example_panel 1 =
     (showPoint example_location example_panel 1)
       \<lparr>trace := trace (showPoint example_location example_panel 1) @
                   [selectionModel_select 1]\<rparr> \<and>
   select_requests (trace (activePointChanged example_location example_panel 1)) =
     select_requests (trace example_panel) + 1 \<and>
   spin_value (UI_easting (activePointChanged example_location example_panel 1)) = - 77 \<and>
   spin_value (UI_northing (activePointChanged example_location example_panel 1)) = 38 \<and>
   spin_value (UI_elevation (activePointChanged example_location example_panel 1)) = 10 \<and>
   currentPoint (activePointChanged example_location example_panel 1) = 1 \<and>
   activePointChanged example_location
     (activePointChanged example_location example_panel 1) 1 =
       activePointChanged example_location example_panel 1 \<and>
   (let d1 = (activePointChanged example_location example_panel 1)
               \<lparr>pointsList_current :=
                  model_find (activePointChanged example_location example_panel 1) 1\<rparr>;
        d2 = currentChanged example_location d1
    in activePointChanged example_location d2 (selectedPoint d1) = d2 \<and>
       select_requests (trace d2) = select_requests (trace example_panel) + 1)"
proof -
  have c: "currentPoint example_view = 1"
    by (simp add: example_view_eq)
  have n: "currentPoint example_panel \<noteq> 1"
    using example_ids_valid(1) by (simp add: example_panel_eq)
  have h: "helper example_panel = Some example_helper"
    by (simp add: example_panel_eq)
  have i: "(1::id_t) \<noteq> INVALID_POINT"
    by (rule example_ids_valid)
  have g: "groundControlPoint example_helper 1 =
     Some \<lparr>geo_loc = GeoPoint (Vector2d (- 77) 38) 4326, elevation = 10,
           is_geo_loc_user_provided = False\<rparr>"
    by (rule example_helper_points)
  have e: "\<not> is_empty (geo_loc \<lparr>geo_loc = GeoPoint (Vector2d (- 77) 38) 4326, elevation = 10,
           is_geo_loc_user_provided = False\<rparr>)"
    by simp
  have l: "example_location (geo_loc \<lparr>geo_loc = GeoPoint (Vector2d (- 77) 38) 4326,
           elevation = 10, is_geo_loc_user_provided = False\<rparr>) lat_lon_WGS84 =
     Inr (Vector3d (- 77) 38 0)"
    by (simp add: lat_lon_WGS84_def)
  have k: "\<exists>h gcp. helper example_panel = Some h \<and> groundControlPoint h 1 = Some gcp"
    using h g by simp
  note same = activePointChanged_guard
         [where location = example_location and d = example_view and pid = 1]
  note other = activePointChanged_guard
         [where location = example_location and d = example_panel and pid = 1
            and h = example_helper
            and gcp = "\<lparr>geo_loc = GeoPoint (Vector2d (- 77) 38) 4326, elevation = 10,
                         is_geo_loc_user_provided = False\<rparr>"
            and x = "- 77" and y = 38 and z = 0]
  have v: "elevation \<lparr>geo_loc = GeoPoint (Vector2d (- 77) 38) 4326, elevation = 10,
           is_geo_loc_user_provided = False\<rparr> = 10"
    by simp
  have e': "\<not> is_empty (GeoPoint (Vector2d (- 77) 38) 4326)"
    by simp
  have l': "example_location (GeoPoint (Vector2d (- 77) 38) 4326) lat_lon_WGS84 =
     Inr (Vector3d (- 77) 38 0)"
    by (simp add: lat_lon_WGS84_def)
  show ?thesis
    using same other c n h i g e l k v e' l' by metis
qed

subsection \<open>The copy button\<close>

lemma showPoint_button: "button_follows_current (showPoint location d pid)"
  by (simp add: button_follows_current_def showPoint_def showPoint_clear_def enableControls_def
      Let_def split: option.splits prod.splits)

lemma setPointPosition_button:
  "button_follows_current d \<Longrightarrow> button_follows_current (setPointPosition d pid)"
  by (simp add: button_follows_current_def setPointPosition_def Let_def split: option.splits)

lemma copyLocation_button:
  "button_follows_current d \<Longrightarrow> copyLocation location number d nf ie = Inr d'
     \<Longrightarrow> button_follows_current d'"
  by (auto simp add: button_follows_current_def copyLocation_def Let_def
      split: option.splits prod.splits if_splits)

lemma handlers_button:
  assumes "button_follows_current d"
  shows "button_follows_current (d\<lparr>helper := h\<rparr>)"
    and "button_follows_current (d\<lparr>helper := h, trace := t\<rparr>)"
    and "button_follows_current (d\<lparr>clipboard := s\<rparr>)"
    and "button_follows_current (currentChanged location d1)"
    and "button_follows_current (actionDelete_triggered d)"
    and "button_follows_current (actionRevert_triggered d)"
    and "button_follows_current (easting_valueChanged d v)"
    and "button_follows_current (northing_valueChanged d v)"
    and "button_follows_current (elevation_valueChanged d v)"
    and "button_follows_current (pointChanged location d pid)"
    and "button_follows_current (pointsRecomputed location d)"
    and "button_follows_current (activePointChanged location d pid)"
proof -
  show "button_follows_current (d\<lparr>helper := h\<rparr>)"
    and "button_follows_current (d\<lparr>helper := h, trace := t\<rparr>)"
    and "button_follows_current (d\<lparr>clipboard := s\<rparr>)"
    using assms by (simp_all add: button_follows_current_def)
  have "button_follows_current (showPoint location d1 (selectedPoint d1))"
    by (rule showPoint_button)
  then show "button_follows_current (currentChanged location d1)"
    by (simp add: currentChanged_def Let_def button_follows_current_def split: option.splits)
  show "button_follows_current (actionDelete_triggered d)"
    using assms by (simp add: button_follows_current_def actionDelete_triggered_def)
  show "button_follows_current (actionRevert_triggered d)"
    using assms by (simp add: button_follows_current_def actionRevert_triggered_def)
  from assms have "button_follows_current (d\<lparr>UI_easting := setValue (UI_easting d) v\<rparr>)"
    by (simp add: button_follows_current_def)
  then show "button_follows_current (easting_valueChanged d v)"
    unfolding easting_valueChanged_def spp_def by (rule setPointPosition_button)
  from assms have "button_follows_current (d\<lparr>UI_northing := setValue (UI_northing d) v\<rparr>)"
    by (simp add: button_follows_current_def)
  then show "button_follows_current (northing_valueChanged d v)"
    unfolding northing_valueChanged_def spp_def by (rule setPointPosition_button)
  from assms have "button_follows_current (d\<lparr>UI_elevation := setValue (UI_elevation d) v\<rparr>)"
    by (simp add: button_follows_current_def)
  then show "button_follows_current (elevation_valueChanged d v)"
    unfolding elevation_valueChanged_def spp_def by (rule setPointPosition_button)
  show "button_follows_current (pointChanged location d pid)"
    using assms by (simp add: pointChanged_def showPoint_button)
  show "button_follows_current (pointsRecomputed location d)"
    using assms by (simp add: pointsRecomputed_def showPoint_button)
  have "button_follows_current (showPoint location d pid)"
    by (rule showPoint_button)
  with assms show "button_follows_current (activePointChanged location d pid)"
    by (simp add: activePointChanged_def Let_def button_follows_current_def)
qed

lemma step_button:
  assumes "button_follows_current d" and "step location number d ev = Inr d'"
  shows "button_follows_current d'"
proof (cases ev)
  case (SetHelper h)
  with assms show ?thesis
    by (auto simp add: setHelper_def handlers_button split: option.splits)
next
  case (HelperChanged h')
  with assms show ?thesis
    by (auto simp add: handlers_button split: option.splits)
next
  case (CopyLocationTriggered northingFirst includeElevation)
  with assms show ?thesis
    by (auto intro: copyLocation_button)
qed (use assms in \<open>auto simp add: handlers_button\<close>)

lemma run_button:
  "button_follows_current d \<Longrightarrow> run location number d evs = Inr d'
     \<Longrightarrow> button_follows_current d'"
proof (induction evs arbitrary: d)
  case Nil
  then show ?case by simp
next
  case (Cons ev evs)
  then show ?case
    by (auto split: sum.splits dest: step_button)
qed

lemma constructor_button: "button_follows_current (GroundControlPointsView ui)"
  by (simp add: button_follows_current_def GroundControlPointsView_def enableControls_def)

text \<open>
  C9. enableControls gives the copy button the value of its first argument, whatever
  the second. showPoint, the only caller besides the constructor, leaves the button
  enabled exactly when it leaves a point current, and this holds in every state the
  panel reaches from its constructor by a run of events. For a point held by the helper with an empty location, showPoint
  leaves the button enabled and the four copy actions of its menu disabled.
\<close>

theorem copyLocationButton_iff_current:
  "copyLocationButton (enableControls d state haveLocation) = state \<and>
   copyLocationButton (showPoint location d pid) =
     (currentPoint (showPoint location d pid) \<noteq> INVALID_POINT) \<and>
   (run location number (GroundControlPointsView ui) evs = Inr d \<longrightarrow>
      copyLocationButton d = (currentPoint d \<noteq> INVALID_POINT)) \<and>
   (helper d = Some h \<and> pid \<noteq> INVALID_POINT \<and> groundControlPoint h pid = Some gcp \<and>
    is_empty (geo_loc gcp) \<longrightarrow>
      copyLocationButton (showPoint location d pid) \<and>
      \<not> UI_actionCopyLocationLatLon (showPoint location d pid) \<and>
      \<not> UI_actionCopyLocationLatLonElev (showPoint location d pid) \<and>
      \<not> UI_actionCopyLocationLonLat (showPoint location d pid) \<and>
      \<not> UI_actionCopyLocationLonLatElev (showPoint location d pid))"
proof (intro conjI impI)
  show "copyLocationButton (enableControls d state haveLocation) = state"
    by (simp add: enableControls_def)
  show "copyLocationButton (showPoint location d pid) =
     (currentPoint (showPoint location d pid) \<noteq> INVALID_POINT)"
    using showPoint_button [of location d pid] by (simp add: button_follows_current_def)
  show "copyLocationButton d = (currentPoint d \<noteq> INVALID_POINT)"
    if "run location number (GroundControlPointsView ui) evs = Inr d"
    using run_button [OF constructor_button that] by (simp add: button_follows_current_def)
next
  assume a: "helper d = Some h \<and> pid \<noteq> INVALID_POINT \<and> groundControlPoint h pid = Some gcp \<and>
    is_empty (geo_loc gcp)"
  then have s: "showPoint location d pid =
      enableControls
        (d\<lparr>currentPoint := pid,
           UI_easting := setValue (UI_easting d) 0,
           UI_northing := setValue (UI_northing d) 0,
           UI_elevation := setValue (UI_elevation d) (elevation gcp)\<rparr>) True False"
    by (simp add: showPoint_def showPoint_grl_def)
  show "copyLocationButton (showPoint location d pid)"
    by (simp add: s enableControls_def)
  show "\<not> UI_actionCopyLocationLatLon (showPoint location d pid)"
    by (simp add: s enableControls_def)
  show "\<not> UI_actionCopyLocationLatLonElev (showPoint location d pid)"
    by (simp add: s enableControls_def)
  show "\<not> UI_actionCopyLocationLonLat (showPoint location d pid)"
    by (simp add: s enableControls_def)
  show "\<not> UI_actionCopyLocationLonLatElev (showPoint location d pid)"
    by (simp add: s enableControls_def)
qed

theorem copyLocationButton_iff_current_witness:
  "copyLocationButton (enableControls example_panel True False) = True \<and>
   run example_location example_number (GroundControlPointsView example_ui)
     [SetHelper (Some example_helper)] = Inr example_panel \<and>
   copyLocationButton example_panel = (currentPoint example_panel \<noteq> INVALID_POINT) \<and>
   helper example_panel = Some example_helper \<and> 2 \<noteq> INVALID_POINT \<and>
   groundControlPoint example_helper 2 =
     Some \<lparr>geo_loc = GeoPointEmpty, elevation = 0, is_geo_loc_user_provided = False\<rparr> \<and>
   is_empty GeoPointEmpty \<and>
   copyLocationButton (showPoint example_location example_panel 2) \<and>
   currentPoint (showPoint example_location example_panel 2) \<noteq> INVALID_POINT \<and>
   \<not> UI_actionCopyLocationLatLon (showPoint example_location example_panel 2) \<and>
   \<not> UI_actionCopyLocationLatLonElev (showPoint example_location example_panel 2) \<and>
   \<not> UI_actionCopyLocationLonLat (showPoint example_location example_panel 2) \<and>
   \<not> UI_actionCopyLocationLonLatElev (showPoint example_location example_panel 2)"
proof -
  have r: "run example_location example_number (GroundControlPointsView example_ui)
     [SetHelper (Some example_helper)] = Inr example_panel"
    by (rule example_runs)
  have h: "helper example_panel = Some example_helper"
    by (simp add: example_panel_eq)
  have i: "(2::id_t) \<noteq> INVALID_POINT"
    by (rule example_ids_valid)
  have g: "groundControlPoint example_helper 2 =
     Some \<lparr>geo_loc = GeoPointEmpty, elevation = 0, is_geo_loc_user_provided = False\<rparr>"
    by (rule example_helper_points)
  have e: "is_empty (geo_loc \<lparr>geo_loc = GeoPointEmpty, elevation = 0,
                               is_geo_loc_user_provided = False\<rparr>)"
    by simp
  from copyLocationButton_iff_current
         [where d = example_panel and state = True and haveLocation = False
            and location = example_location and number = example_number and pid = 2
            and ui = example_ui and evs = "[SetHelper (Some example_helper)]"
            and h = example_helper
            and gcp = "\<lparr>geo_loc = GeoPointEmpty, elevation = 0,
                         is_geo_loc_user_provided = False\<rparr>"]
    r h i g e
  show ?thesis by auto
qed

subsection \<open>The copy actions and the helper\<close>

text \<open>
  The copy actions are enabled by showPoint alone, and only on the branch where the
  helper is set and holds the point; the helper pointer, once set, is never reset to
  null. So in every state the panel reaches from its constructor, a copy action that
  is enabled finds a helper to dereference: the fault of copyLocation needs an action
  that is triggered although it is disabled.
\<close>

lemma showPoint_copy_needs_helper: "copy_needs_helper (showPoint location d pid)"
  by (simp add: copy_needs_helper_def copy_action_enabled_def showPoint_def showPoint_clear_def
      enableControls_def Let_def split: option.splits prod.splits)

lemma setPointPosition_copy_needs_helper:
  "copy_needs_helper d \<Longrightarrow> copy_needs_helper (setPointPosition d pid)"
  by (auto simp add: copy_needs_helper_def copy_action_enabled_def setPointPosition_def Let_def
      split: option.splits)

lemma copyLocation_copy_needs_helper:
  "copy_needs_helper d \<Longrightarrow> copyLocation location number d nf ie = Inr d'
     \<Longrightarrow> copy_needs_helper d'"
  by (auto simp add: copy_needs_helper_def copy_action_enabled_def copyLocation_def Let_def
      split: option.splits prod.splits if_splits)

lemma handlers_copy_needs_helper:
  assumes "copy_needs_helper d"
  shows "copy_needs_helper (d\<lparr>helper := Some h\<rparr>)"
    and "copy_needs_helper (d\<lparr>helper := Some h, trace := t\<rparr>)"
    and "copy_needs_helper (d\<lparr>clipboard := s\<rparr>)"
    and "copy_needs_helper (currentChanged location d1)"
    and "copy_needs_helper (actionDelete_triggered d)"
    and "copy_needs_helper (actionRevert_triggered d)"
    and "copy_needs_helper (easting_valueChanged d v)"
    and "copy_needs_helper (northing_valueChanged d v)"
    and "copy_needs_helper (elevation_valueChanged d v)"
    and "copy_needs_helper (pointChanged location d pid)"
    and "copy_needs_helper (pointsRecomputed location d)"
    and "copy_needs_helper (activePointChanged location d pid)"
proof -
  show "copy_needs_helper (d\<lparr>helper := Some h\<rparr>)"
    and "copy_needs_helper (d\<lparr>helper := Some h, trace := t\<rparr>)"
    and "copy_needs_helper (d\<lparr>clipboard := s\<rparr>)"
    using assms by (simp_all add: copy_needs_helper_def copy_action_enabled_def)
  have "copy_needs_helper (showPoint location d1 (selectedPoint d1))"
    by (rule showPoint_copy_needs_helper)
  then show "copy_needs_helper (currentChanged location d1)"
    by (auto simp add: currentChanged_def Let_def copy_needs_helper_def copy_action_enabled_def
        split: option.splits)
  show "copy_needs_helper (actionDelete_triggered d)"
    using assms
    by (simp add: copy_needs_helper_def copy_action_enabled_def actionDelete_triggered_def)
  show "copy_needs_helper (actionRevert_triggered d)"
    using assms
    by (simp add: copy_needs_helper_def copy_action_enabled_def actionRevert_triggered_def)
  from assms have "copy_needs_helper (d\<lparr>UI_easting := setValue (UI_easting d) v\<rparr>)"
    by (simp add: copy_needs_helper_def copy_action_enabled_def)
  then show "copy_needs_helper (easting_valueChanged d v)"
    unfolding easting_valueChanged_def spp_def by (rule setPointPosition_copy_needs_helper)
  from assms have "copy_needs_helper (d\<lparr>UI_northing := setValue (UI_northing d) v\<rparr>)"
    by (simp add: copy_needs_helper_def copy_action_enabled_def)
  then show "copy_needs_helper (northing_valueChanged d v)"
    unfolding northing_valueChanged_def spp_def by (rule setPointPosition_copy_needs_helper)
  from assms have "copy_needs_helper (d\<lparr>UI_elevation := setValue (UI_elevation d) v\<rparr>)"
    by (simp add: copy_needs_helper_def copy_action_enabled_def)
  then show "copy_needs_helper (elevation_valueChanged d v)"
    unfolding elevation_valueChanged_def spp_def by (rule setPointPosition_copy_needs_helper)
  show "copy_needs_helper (pointChanged location d pid)"
    using assms by (simp add: pointChanged_def showPoint_copy_needs_helper)
  show "copy_needs_helper (pointsRecomputed location d)"
    using assms by (simp add: pointsRecomputed_def showPoint_copy_needs_helper)
  have "copy_needs_helper (showPoint location d pid)"
    by (rule showPoint_copy_needs_helper)
  with assms show "copy_needs_helper (activePointChanged location d pid)"
    by (simp add: activePointChanged_def Let_def copy_needs_helper_def copy_action_enabled_def)
qed

lemma step_copy_needs_helper:
  assumes "copy_needs_helper d" and "step location number d ev = Inr d'"
  shows "copy_needs_helper d'"
proof (cases ev)
  case (SetHelper h)
  with assms show ?thesis
    by (auto simp add: setHelper_def handlers_copy_needs_helper split: option.splits)
next
  case (HelperChanged h')
  with assms show ?thesis
    by (auto simp add: handlers_copy_needs_helper split: option.splits)
next
  case (CopyLocationTriggered northingFirst includeElevation)
  with assms show ?thesis
    by (auto intro: copyLocation_copy_needs_helper)
qed (use assms in \<open>auto simp add: handlers_copy_needs_helper\<close>)

lemma run_copy_needs_helper:
  "copy_needs_helper d \<Longrightarrow> run location number d evs = Inr d'
     \<Longrightarrow> copy_needs_helper d'"
proof (induction evs arbitrary: d)
  case Nil
  then show ?case by simp
next
  case (Cons ev evs)
  then show ?case
    by (auto split: sum.splits dest: step_copy_needs_helper)
qed

lemma constructor_copy_needs_helper: "copy_needs_helper (GroundControlPointsView ui)"
  by (simp add: copy_needs_helper_def copy_action_enabled_def GroundControlPointsView_def
      enableControls_def)

lemma enabled_copy_action_does_not_fault:
  assumes "run location number (GroundControlPointsView ui) evs = Inr d"
    and "copy_action_enabled d"
  shows "copyLocation location' number' d northingFirst includeElevation
           \<noteq> Inl NullPointerDereference"
proof -
  have "copy_needs_helper d"
    using constructor_copy_needs_helper assms(1) by (rule run_copy_needs_helper)
  with assms(2) have "helper d \<noteq> None"
    by (simp add: copy_needs_helper_def)
  then show ?thesis
    by (auto simp add: copyLocation_def Let_def split: option.splits prod.splits)
qed

end
